theory Spec2Isabelle
  imports Complex_Main "HOL-Library.Sublist"
begin

section \<open>Values of the platform\<close>

text \<open>
  JavaScript strings are modelled as \<^typ>\<open>string\<close>; the program only compares them
  with \<open>===\<close>, concatenates them, lower-cases a method name and searches for ASCII
  fragments, all of which agree on the UTF-8 rendering of a well-formed string.
  A value that may be \<open>null\<close> or \<open>undefined\<close> is an \<^typ>\<open>'a option\<close>.
\<close>

text \<open>The values \<open>JSON.parse\<close> can return and \<open>JSON.stringify\<close> can take.\<close>

datatype json =
    JNull
  | JBool bool
  | JNumber real
  | JString string
  | JArray "json list"
  | JObject "(string \<times> json) list"

text \<open>JavaScript truthiness, as tested by \<open>if (user)\<close> in the views.\<close>

fun truthy :: "json \<Rightarrow> bool" where
  "truthy JNull = False"
| "truthy (JBool b) = b"
| "truthy (JNumber r) = (r \<noteq> 0)"
| "truthy (JString s) = (s \<noteq> [])"
| "truthy (JArray xs) = True"
| "truthy (JObject kvs) = True"

text \<open>Property access \<open>v.k\<close> on a parsed value; \<open>None\<close> is \<open>undefined\<close>.\<close>

fun json_field :: "json \<Rightarrow> string \<Rightarrow> json option" where
  "json_field (JObject kvs) k = map_of kvs k"
| "json_field v k = None"

text \<open>Exceptions: \<open>new Error(message)\<close>, the \<open>SyntaxError\<close> of \<open>JSON.parse\<close> and
  the \<open>QuotaExceededError\<close> of \<open>localStorage.setItem\<close>, each with its message.\<close>

datatype js_error = Error string | SyntaxError string | QuotaExceededError string

fun message :: "js_error \<Rightarrow> string" where
  "message (Error m) = m"
| "message (SyntaxError m) = m"
| "message (QuotaExceededError m) = m"

text \<open>\<open>a || b\<close> on strings: the empty string is falsy.\<close>

definition or_else :: "string \<Rightarrow> string \<Rightarrow> string" where
  "or_else a b = (if a \<noteq> [] then a else b)"

text \<open>\<open>String.prototype.includes\<close>: the fragment occurs as a contiguous substring.\<close>

definition str_includes :: "string \<Rightarrow> string \<Rightarrow> bool" where
  "str_includes s fragment = sublist fragment s"

text \<open>
  \<open>String.prototype.toLowerCase\<close> on the letters A to Z. Other characters are left as
  they are; no character outside A to Z lower-cases to one of \<open>g\<close>, \<open>e\<close>, \<open>t\<close>, so
  the comparison with \<open>'get'\<close> below is not affected.
\<close>

definition toLowerCase_char :: "char \<Rightarrow> char" where
  "toLowerCase_char c =
     (case map_of (zip ''ABCDEFGHIJKLMNOPQRSTUVWXYZ'' ''abcdefghijklmnopqrstuvwxyz'') c of
        Some l \<Rightarrow> l
      | None \<Rightarrow> c)"

definition toLowerCase :: "string \<Rightarrow> string" where
  "toLowerCase s = map toLowerCase_char s"

text \<open>Decimal rendering of an integer, as a template literal renders \<open>Date.now()\<close>
  and as \<open>String(n)\<close> renders a length.\<close>

definition digit_char :: "nat \<Rightarrow> char" where
  "digit_char d = ''0123456789'' ! d"

fun digits_of :: "nat \<Rightarrow> string \<Rightarrow> string" where
  "digits_of n acc =
     (let acc' = digit_char (n mod 10) # acc
      in if n div 10 = 0 then acc' else digits_of (n div 10) acc')"

declare digits_of.simps [simp del]

definition String_of_number :: "int \<Rightarrow> string" where
  "String_of_number i =
     (if 0 \<le> i then digits_of (nat i) [] else CHR ''-'' # digits_of (nat (- i)) [])"

section \<open>Session store (AuthContext.jsx)\<close>

record mock_user =
  user_id :: string
  user_email :: string
  user_password :: string
  user_name :: string
  user_isVerified :: bool

definition initial_MOCK_USERS :: "mock_user list" where
  "initial_MOCK_USERS =
     [\<lparr>user_id = ''1'', user_email = ''demo@jobtracker.com'', user_password = ''password123'',
       user_name = ''Demo User'', user_isVerified = True\<rparr>,
      \<lparr>user_id = ''2'', user_email = ''john@example.com'', user_password = ''password123'',
       user_name = ''John Smith'', user_isVerified = True\<rparr>,
      \<lparr>user_id = ''3'', user_email = ''test@test.com'', user_password = ''test123'',
       user_name = ''Test User'', user_isVerified = True\<rparr>]"

text \<open>A record of the table as a logged or serialised object, fields in source order.\<close>

definition json_of_mock_user :: "mock_user \<Rightarrow> json" where
  "json_of_mock_user u =
     JObject [(''id'', JString (user_id u)), (''email'', JString (user_email u)),
              (''password'', JString (user_password u)), (''name'', JString (user_name u)),
              (''isVerified'', JBool (user_isVerified u))]"

datatype toast = toast_success string | toast_error string

datatype console_arg = Text string | Value json | Thrown js_error

datatype console_entry = console_log "console_arg list" | console_error "console_arg list"

text \<open>
  Everything the session store and the gateway read or write: \<open>localStorage\<close>, the
  gateway's \<open>api.defaults.headers.common\<close>, the provider's \<open>user\<close> and \<open>loading\<close>
  state, the module-level \<open>MOCK_USERS\<close> array, \<open>window.location.href\<close>, and the
  notifications and console lines emitted so far. State updates take effect at once.
\<close>

record app_state =
  localStorage :: "string \<rightharpoonup> string"
  default_headers :: "string \<rightharpoonup> string"
  user :: json
  loading :: bool
  MOCK_USERS :: "mock_user list"
  location_href :: string
  toasts :: "toast list"
  console :: "console_entry list"

text \<open>The state in which the provider first renders: \<open>useState(null)\<close>,
  \<open>useState(true)\<close> and the table as the module declares it.\<close>

definition mount :: "(string \<rightharpoonup> string) \<Rightarrow> (string \<rightharpoonup> string) \<Rightarrow> string \<Rightarrow> app_state" where
  "mount storage common href =
     \<lparr>localStorage = storage, default_headers = common, user = JNull, loading = True,
      MOCK_USERS = initial_MOCK_USERS, location_href = href, toasts = [], console = []\<rparr>"

definition authenticated :: "app_state \<Rightarrow> bool" where
  "authenticated s = truthy (user s)"

definition getItem :: "string \<Rightarrow> app_state \<Rightarrow> string option" where
  "getItem k s = localStorage s k"

text \<open>
  \<open>localStorage.setItem\<close> throws when the store has no room for the write. Whether it
  does is decided by the platform, from the present contents and the key and value to
  be written: \<open>storage_refuses\<close> is that decision, giving the exception thrown, or
  \<open>None\<close> when the write is accepted. Reading and removing never throw.
\<close>

type_synonym storage_policy = "(string \<rightharpoonup> string) \<Rightarrow> string \<Rightarrow> string \<Rightarrow> js_error option"

definition setItem :: "storage_policy \<Rightarrow> string \<Rightarrow> string \<Rightarrow> app_state \<Rightarrow> js_error + app_state" where
  "setItem storage_refuses k v s =
     (case storage_refuses (localStorage s) k v of
        Some error \<Rightarrow> Inl error
      | None \<Rightarrow> Inr (s\<lparr>localStorage := (localStorage s)(k \<mapsto> v)\<rparr>))"

definition removeItem :: "string \<Rightarrow> app_state \<Rightarrow> app_state" where
  "removeItem k s = s\<lparr>localStorage := (localStorage s)(k := None)\<rparr>"

definition set_default_header :: "string \<Rightarrow> string \<Rightarrow> app_state \<Rightarrow> app_state" where
  "set_default_header k v s = s\<lparr>default_headers := (default_headers s)(k \<mapsto> v)\<rparr>"

definition delete_default_header :: "string \<Rightarrow> app_state \<Rightarrow> app_state" where
  "delete_default_header k s = s\<lparr>default_headers := (default_headers s)(k := None)\<rparr>"

definition setUser :: "json \<Rightarrow> app_state \<Rightarrow> app_state" where
  "setUser v s = s\<lparr>user := v\<rparr>"

definition setLoading :: "bool \<Rightarrow> app_state \<Rightarrow> app_state" where
  "setLoading b s = s\<lparr>loading := b\<rparr>"

definition emit_toast :: "toast \<Rightarrow> app_state \<Rightarrow> app_state" where
  "emit_toast t s = s\<lparr>toasts := toasts s @ [t]\<rparr>"

definition emit_console :: "console_entry \<Rightarrow> app_state \<Rightarrow> app_state" where
  "emit_console e s = s\<lparr>console := console s @ [e]\<rparr>"

text \<open>A string read from storage is truthy when it is present and not empty.\<close>

fun truthy_item :: "string option \<Rightarrow> bool" where
  "truthy_item None = False"
| "truthy_item (Some v) = (v \<noteq> [])"

subsection \<open>logout\<close>

definition logout :: "app_state \<Rightarrow> app_state" where
  "logout s =
     (let s1 = removeItem ''token'' s;
          s2 = removeItem ''user'' s1;
          s3 = delete_default_header ''Authorization'' s2;
          s4 = setUser JNull s3
      in emit_toast (toast_success ''Successfully logged out!'') s4)"

subsection \<open>Restoring a session when the provider mounts\<close>

text \<open>
  \<open>JSON.parse\<close> belongs to the platform and is a parameter: it returns the parsed
  value or the exception it throws. The \<open>try\<close> block is \<open>restore_try\<close>; the
  \<open>catch\<close> block handles whatever it throws, so \<open>restore\<close> itself returns a state
  on every path.
\<close>

definition restore_try ::
  "(string \<Rightarrow> js_error + json) \<Rightarrow> string \<Rightarrow> string \<Rightarrow> app_state \<Rightarrow> js_error + app_state" where
  "restore_try JSON_parse token userData s =
     (case JSON_parse userData of
        Inl error \<Rightarrow> Inl error
      | Inr parsedUser \<Rightarrow>
          Inr (set_default_header ''Authorization'' (''Bearer '' @ token) (setUser parsedUser s)))"

definition restore :: "(string \<Rightarrow> js_error + json) \<Rightarrow> app_state \<Rightarrow> app_state" where
  "restore JSON_parse s =
     (let token = getItem ''token'' s;
          userData = getItem ''user'' s;
          s1 = (if truthy_item token \<and> truthy_item userData then
                  (case restore_try JSON_parse (the token) (the userData) s of
                     Inr s' \<Rightarrow> s'
                   | Inl error \<Rightarrow>
                       (let e1 = emit_console
                                   (console_error [Text ''Error parsing user data:'', Thrown error]) s;
                            e2 = removeItem ''token'' e1
                        in removeItem ''user'' e2))
                else s)
      in setLoading False s1)"

subsection \<open>login\<close>

text \<open>
  \<open>JSON.stringify\<close>, the clock \<open>Date.now()\<close> and the store's decision on a write
  are parameters. \<open>login_try\<close> is the \<open>try\<close> block, returning the exception it
  throws or unit: a refused write leaves the block at that statement. \<open>login\<close> adds
  the \<open>catch\<close> block, which reports and rethrows.
\<close>

definition login_try ::
  "storage_policy \<Rightarrow> (json \<Rightarrow> string) \<Rightarrow> int \<Rightarrow> string \<Rightarrow> string \<Rightarrow> app_state
     \<Rightarrow> (js_error + unit) \<times> app_state" where
  "login_try storage_refuses JSON_stringify now email password s =
     (let s1 = emit_console
                 (console_log [Text ''Attempting login with:'',
                    Value (JObject [(''email'', JString email), (''password'', JString password)])]) s
      in case find (\<lambda>u. user_email u = email \<and> user_password u = password) (MOCK_USERS s1) of
           None \<Rightarrow>
             (Inl (Error ''Invalid email or password''),
              emit_console (console_log [Text ''User not found in mock data'']) s1)
         | Some mockUser \<Rightarrow>
             (let s2 = emit_console
                         (console_log [Text ''Mock user found:'', Value (json_of_mock_user mockUser)]) s1;
                  token = ''mock-jwt-token-'' @ String_of_number now;
                  userData = JObject [(''id'', JString (user_id mockUser)),
                                      (''email'', JString (user_email mockUser)),
                                      (''name'', JString (user_name mockUser)),
                                      (''isVerified'', JBool (user_isVerified mockUser))]
              in case setItem storage_refuses ''token'' token s2 of
                   Inl error \<Rightarrow> (Inl error, s2)
                 | Inr s3 \<Rightarrow>
                     (case setItem storage_refuses ''user'' (JSON_stringify userData) s3 of
                        Inl error \<Rightarrow> (Inl error, s3)
                      | Inr s4 \<Rightarrow>
                          (let s5 = set_default_header ''Authorization'' (''Bearer '' @ token) s4;
                               s6 = setUser userData s5;
                               s7 = emit_toast (toast_success ''Successfully logged in!'') s6
                           in (Inr (), emit_console (console_log [Text ''Login successful'']) s7)))))"

definition login ::
  "storage_policy \<Rightarrow> (json \<Rightarrow> string) \<Rightarrow> int \<Rightarrow> string \<Rightarrow> string \<Rightarrow> app_state
     \<Rightarrow> (js_error + unit) \<times> app_state" where
  "login storage_refuses JSON_stringify now email password s =
     (case login_try storage_refuses JSON_stringify now email password s of
        (Inr u, s') \<Rightarrow> (Inr u, s')
      | (Inl error, s') \<Rightarrow>
          (let c1 = emit_console (console_error [Text ''Login error:'', Thrown error]) s';
               c2 = emit_toast (toast_error (or_else (message error) ''Login failed'')) c1
           in (Inl error, c2)))"

subsection \<open>register\<close>

definition register_try ::
  "string \<Rightarrow> string \<Rightarrow> string \<Rightarrow> app_state \<Rightarrow> (js_error + unit) \<times> app_state" where
  "register_try name email password s =
     (case find (\<lambda>u. user_email u = email) (MOCK_USERS s) of
        Some existingUser \<Rightarrow> (Inl (Error ''User with this email already exists''), s)
      | None \<Rightarrow>
          (let newUser = \<lparr>user_id = String_of_number (int (length (MOCK_USERS s) + 1)),
                          user_email = email, user_password = password, user_name = name,
                          user_isVerified = True\<rparr>;
               s1 = s\<lparr>MOCK_USERS := MOCK_USERS s @ [newUser]\<rparr>
           in (Inr (),
               emit_toast (toast_success
                 ''Registration successful! You can now log in with your credentials.'') s1)))"

definition register ::
  "string \<Rightarrow> string \<Rightarrow> string \<Rightarrow> app_state \<Rightarrow> (js_error + unit) \<times> app_state" where
  "register name email password s =
     (case register_try name email password s of
        (Inr u, s') \<Rightarrow> (Inr u, s')
      | (Inl error, s') \<Rightarrow>
          (Inl error, emit_toast (toast_error (or_else (message error) ''Registration failed'')) s'))"

section \<open>Request gateway (services/api.ts)\<close>

subsection \<open>Fixtures\<close>

record application =
  app_id :: string
  app_company :: string
  app_position :: string
  app_status :: string
  app_appliedDate :: string
  app_salary :: int
  app_location :: string
  app_notes :: string

record resume =
  resume_id :: string
  resume_name :: string
  resume_filename :: string
  resume_fileSize :: int
  resume_uploadDate :: string
  resume_isDefault :: bool
  resume_tags :: "string list"
  resume_usageCount :: int

record reminder =
  reminder_id :: string
  reminder_title :: string
  reminder_description :: string
  reminder_date :: string
  reminder_time :: string
  reminder_type :: string
  reminder_isCompleted :: bool
  reminder_notificationSent :: bool

definition MOCK_DATA_applications :: "application list" where
  "MOCK_DATA_applications =
     [\<lparr>app_id = ''1'', app_company = ''Google'', app_position = ''Senior Frontend Developer'',
       app_status = ''interview'', app_appliedDate = ''2024-01-15'', app_salary = 150000,
       app_location = ''Mountain View, CA'',
       app_notes = ''Great company culture, exciting projects''\<rparr>,
      \<lparr>app_id = ''2'', app_company = ''Microsoft'', app_position = ''Full Stack Engineer'',
       app_status = ''applied'', app_appliedDate = ''2024-01-10'', app_salary = 140000,
       app_location = ''Seattle, WA'', app_notes = ''Applied through LinkedIn''\<rparr>,
      \<lparr>app_id = ''3'', app_company = ''Apple'', app_position = ''iOS Developer'',
       app_status = ''offer'', app_appliedDate = ''2024-01-05'', app_salary = 160000,
       app_location = ''Cupertino, CA'',
       app_notes = ''Received offer, considering options''\<rparr>]"

definition MOCK_DATA_resumes :: "resume list" where
  "MOCK_DATA_resumes =
     [\<lparr>resume_id = ''1'', resume_name = ''Senior Developer Resume'',
       resume_filename = ''resume-senior-dev.pdf'', resume_fileSize = 245760,
       resume_uploadDate = ''2024-01-01'', resume_isDefault = True,
       resume_tags = [''senior'', ''frontend'', ''react''], resume_usageCount = 5\<rparr>,
      \<lparr>resume_id = ''2'', resume_name = ''Full Stack Resume'',
       resume_filename = ''resume-fullstack.pdf'', resume_fileSize = 198432,
       resume_uploadDate = ''2024-01-02'', resume_isDefault = False,
       resume_tags = [''fullstack'', ''javascript'', ''node''], resume_usageCount = 3\<rparr>]"

definition MOCK_DATA_reminders :: "reminder list" where
  "MOCK_DATA_reminders =
     [\<lparr>reminder_id = ''1'', reminder_title = ''Google Interview'',
       reminder_description = ''Technical interview with the frontend team'',
       reminder_date = ''2024-01-25'', reminder_time = ''14:00'', reminder_type = ''interview'',
       reminder_isCompleted = False, reminder_notificationSent = False\<rparr>,
      \<lparr>reminder_id = ''2'', reminder_title = ''Follow up with Microsoft'',
       reminder_description = ''Send follow-up email about application status'',
       reminder_date = ''2024-01-20'', reminder_time = ''10:00'', reminder_type = ''follow-up'',
       reminder_isCompleted = False, reminder_notificationSent = False\<rparr>]"

record dashboard_stats =
  totalApplications :: nat
  appliedCount :: nat
  interviewCount :: nat
  offerCount :: nat
  rejectedCount :: nat
  recentApplications :: "application list"
  upcomingReminders :: "reminder list"

record chart =
  labels :: "string list"
  data :: "int list"

record analytics =
  statusDistribution :: chart
  monthlyApplications :: chart
  topCompanies :: chart
  responseRate :: int
  averageResponseTime :: int
  analytics_totalApplications :: int
  successRate :: int

text \<open>The \<open>data\<close> member of a substituted response.\<close>

datatype payload =
    Applications "application list"
  | Resumes "resume list"
  | Reminders "reminder list"
  | DashboardStats dashboard_stats
  | Analytics analytics

definition dashboard_stats_fixture :: dashboard_stats where
  "dashboard_stats_fixture =
     \<lparr>totalApplications = length MOCK_DATA_applications,
      appliedCount = length (filter (\<lambda>a. app_status a = ''applied'') MOCK_DATA_applications),
      interviewCount = length (filter (\<lambda>a. app_status a = ''interview'') MOCK_DATA_applications),
      offerCount = length (filter (\<lambda>a. app_status a = ''offer'') MOCK_DATA_applications),
      rejectedCount = length (filter (\<lambda>a. app_status a = ''rejected'') MOCK_DATA_applications),
      recentApplications = take 5 MOCK_DATA_applications,
      upcomingReminders = take 3 MOCK_DATA_reminders\<rparr>"

definition analytics_fixture :: analytics where
  "analytics_fixture =
     \<lparr>statusDistribution =
        \<lparr>labels = [''Applied'', ''Interview'', ''Offer'', ''Rejected''], data = [1, 1, 1, 0]\<rparr>,
      monthlyApplications = \<lparr>labels = [''Dec 2023'', ''Jan 2024''], data = [2, 3]\<rparr>,
      topCompanies = \<lparr>labels = [''Google'', ''Microsoft'', ''Apple''], data = [1, 1, 1]\<rparr>,
      responseRate = 67, averageResponseTime = 7, analytics_totalApplications = 3,
      successRate = 33\<rparr>"

subsection \<open>Interceptors\<close>

text \<open>
  The request configuration and the error object, with the members the interceptors
  read: \<open>config.url\<close>, \<open>config.method\<close>, \<open>config.headers\<close>, \<open>error.code\<close>,
  \<open>error.config\<close> and \<open>error.response?.status\<close>. Members that may be undefined are
  options.
\<close>

record request_config =
  cfg_url :: "string option"
  cfg_method :: "string option"
  cfg_headers :: "string \<rightharpoonup> string"

record axios_error =
  err_message :: string
  err_code :: "string option"
  err_config :: "request_config option"
  err_status :: "int option"

definition request_interceptor :: "app_state \<Rightarrow> request_config \<Rightarrow> request_config" where
  "request_interceptor s config =
     (let token = getItem ''token'' s
      in if truthy_item token
         then config\<lparr>cfg_headers := (cfg_headers config)(''Authorization'' \<mapsto> ''Bearer '' @ the token)\<rparr>
         else config)"

text \<open>\<open>url?.includes(fragment) && method === 'get'\<close>, with \<open>method\<close> already lower-cased.\<close>

definition route_matches :: "string option \<Rightarrow> string option \<Rightarrow> string \<Rightarrow> bool" where
  "route_matches url method fragment =
     ((case url of None \<Rightarrow> False | Some u \<Rightarrow> str_includes u fragment) \<and> method = Some ''get'')"

text \<open>The chain of \<open>if\<close> statements that picks a fixture, in source order.\<close>

definition mock_response :: "request_config \<Rightarrow> payload option" where
  "mock_response config =
     (let url = cfg_url config;
          method = map_option toLowerCase (cfg_method config)
      in if route_matches url method ''/applications'' then Some (Applications MOCK_DATA_applications)
         else if route_matches url method ''/resumes'' then Some (Resumes MOCK_DATA_resumes)
         else if route_matches url method ''/reminders'' then Some (Reminders MOCK_DATA_reminders)
         else if route_matches url method ''/dashboard/stats'' then Some (DashboardStats dashboard_stats_fixture)
         else if route_matches url method ''/analytics'' then Some (Analytics analytics_fixture)
         else None)"

text \<open>
  What the error handler of the response interceptor gives its caller: a resolved
  promise carrying a fixture, a rejected promise carrying the error, or the
  \<open>TypeError\<close> of reading \<open>error.config.url\<close> when \<open>error.config\<close> is undefined.
\<close>

datatype interceptor_outcome = Resolved payload | Rejected axios_error | TypeError_thrown

text \<open>The end of the handler, reached when no fixture was returned: the test for
  status 401 and \<open>Promise.reject(error)\<close>.\<close>

definition reject_error :: "axios_error \<Rightarrow> app_state \<Rightarrow> interceptor_outcome \<times> app_state" where
  "reject_error error s =
     (if err_status error = Some 401
      then (let s1 = removeItem ''token'' s;
                s2 = removeItem ''user'' s1
            in (Rejected error, s2\<lparr>location_href := ''/login''\<rparr>))
      else (Rejected error, s))"

definition response_error_interceptor ::
  "axios_error \<Rightarrow> app_state \<Rightarrow> interceptor_outcome \<times> app_state" where
  "response_error_interceptor error s =
     (if err_code error = Some ''ERR_NETWORK'' \<or> err_code error = Some ''ECONNREFUSED''
      then (case err_config error of
              None \<Rightarrow> (TypeError_thrown, s)
            | Some config \<Rightarrow>
                (case mock_response config of
                   Some fixture \<Rightarrow> (Resolved fixture, s)
                 | None \<Rightarrow> reject_error error s))
      else reject_error error s)"

section \<open>Worked inputs\<close>

text \<open>
  Instances of the two platform parameters, used to run the model on the inputs
  below. \<open>JSON_parse_literals\<close> reads the three literal names of JSON; the only other
  texts it is applied to in this theory are the empty text and a lone opening brace,
  neither of which is JSON, and it reports a syntax error for them as the platform
  does. \<open>JSON_stringify_flat\<close> renders an object whose members are booleans and
  strings that need no escaping, as the session store builds it.
\<close>

definition JSON_parse_literals :: "string \<Rightarrow> js_error + json" where
  "JSON_parse_literals text =
     (if text = ''null'' then Inr JNull
      else if text = ''true'' then Inr (JBool True)
      else if text = ''false'' then Inr (JBool False)
      else Inl (SyntaxError ''Unexpected token or end of JSON input''))"

definition quoted :: "string \<Rightarrow> string" where
  "quoted s = CHR 0x22 # s @ [CHR 0x22]"

fun render_member :: "string \<times> json \<Rightarrow> string" where
  "render_member (k, JString v) = quoted k @ '':'' @ quoted v"
| "render_member (k, JBool b) = quoted k @ '':'' @ (if b then ''true'' else ''false'')"
| "render_member (k, v) = quoted k @ '':null''"

fun join_members :: "string list \<Rightarrow> string" where
  "join_members [] = []"
| "join_members [m] = m"
| "join_members (m # ms) = m @ '','' @ join_members ms"

fun JSON_stringify_flat :: "json \<Rightarrow> string" where
  "JSON_stringify_flat (JObject kvs) = ''{'' @ join_members (map render_member kvs) @ ''}''"
| "JSON_stringify_flat (JString v) = quoted v"
| "JSON_stringify_flat (JBool b) = (if b then ''true'' else ''false'')"
| "JSON_stringify_flat v = ''null''"

text \<open>Two stores: one that accepts every write, and a full one that refuses every
  write with the exception of the platform.\<close>

definition roomy_storage :: storage_policy where
  "roomy_storage contents k v = None"

definition full_storage :: storage_policy where
  "full_storage contents k v = Some (QuotaExceededError ''The quota has been exceeded.'')"

text \<open>A first render with empty storage, and a session as \<open>login\<close> leaves it for the
  third user of the table.\<close>

definition signed_out :: app_state where
  "signed_out = mount Map.empty Map.empty ''/login''"

definition test_userData :: json where
  "test_userData =
     JObject [(''id'', JString ''3''), (''email'', JString ''test@test.com''),
              (''name'', JString ''Test User''), (''isVerified'', JBool True)]"

definition signed_in :: app_state where
  "signed_in =
     \<lparr>localStorage = [''token'' \<mapsto> ''mock-jwt-token-1700000000000'',
                      ''user'' \<mapsto> JSON_stringify_flat test_userData],
      default_headers = [''Authorization'' \<mapsto> ''Bearer mock-jwt-token-1700000000000''],
      user = test_userData, loading = False, MOCK_USERS = initial_MOCK_USERS,
      location_href = ''/dashboard'', toasts = [toast_success ''Successfully logged in!''],
      console = []\<rparr>"

text \<open>A request as the views issue it, and the errors the gateway hands to the
  response interceptor: a connection failure, and a 401 answer of a backend.\<close>

definition request :: "string \<Rightarrow> string \<Rightarrow> request_config" where
  "request method url = \<lparr>cfg_url = Some url, cfg_method = Some method, cfg_headers = Map.empty\<rparr>"

definition network_error :: "request_config \<Rightarrow> axios_error" where
  "network_error config =
     \<lparr>err_message = ''Network Error'', err_code = Some ''ERR_NETWORK'',
      err_config = Some config, err_status = None\<rparr>"

definition unauthorized_error :: "request_config \<Rightarrow> axios_error" where
  "unauthorized_error config =
     \<lparr>err_message = ''Request failed with status code 401'', err_code = Some ''ERR_BAD_REQUEST'',
      err_config = Some config, err_status = Some 401\<rparr>"

section \<open>Lemmas\<close>

lemmas effect_defs =
  getItem_def setItem_def removeItem_def set_default_header_def delete_default_header_def
  setUser_def setLoading_def emit_toast_def emit_console_def

lemma digits_of_last: "n div 10 = 0 \<Longrightarrow> digits_of n acc = digit_char (n mod 10) # acc"
  by (subst digits_of.simps) simp

lemma digits_of_more:
  "n div 10 \<noteq> 0 \<Longrightarrow> digits_of n acc = digits_of (n div 10) (digit_char (n mod 10) # acc)"
  by (subst digits_of.simps) simp

subsection \<open>login and register, by outcome of the table lookup\<close>

lemma find_login_None:
  "\<not> (\<exists>u\<in>set us. user_email u = email \<and> user_password u = password) \<Longrightarrow>
   find (\<lambda>u. user_email u = email \<and> user_password u = password) us = None"
  by (simp add: find_None_iff)

lemma find_login_Some:
  "\<exists>u\<in>set us. user_email u = email \<and> user_password u = password \<Longrightarrow>
   \<exists>m. find (\<lambda>u. user_email u = email \<and> user_password u = password) us = Some m \<and>
       m \<in> set us \<and> user_email m = email \<and> user_password m = password"
  by (cases "find (\<lambda>u. user_email u = email \<and> user_password u = password) us")
     (auto simp: find_None_iff find_Some_iff)

lemma login_no_match:
  assumes "find (\<lambda>u. user_email u = email \<and> user_password u = password) (MOCK_USERS s) = None"
  shows "login storage_refuses JSON_stringify now email password s =
     (Inl (Error ''Invalid email or password''),
      s\<lparr>toasts := toasts s @ [toast_error ''Invalid email or password''],
        console := console s @
          [console_log [Text ''Attempting login with:'',
             Value (JObject [(''email'', JString email), (''password'', JString password)])],
           console_log [Text ''User not found in mock data''],
           console_error [Text ''Login error:'', Thrown (Error ''Invalid email or password'')]]\<rparr>)"
  using assms by (simp add: login_def login_try_def effect_defs or_else_def Let_def)

lemma login_match:
  assumes "find (\<lambda>u. user_email u = email \<and> user_password u = password) (MOCK_USERS s) = Some m"
    and "storage_refuses (localStorage s) ''token'' (''mock-jwt-token-'' @ String_of_number now) = None"
    and "storage_refuses ((localStorage s)(''token'' \<mapsto> ''mock-jwt-token-'' @ String_of_number now))
           ''user''
           (JSON_stringify
              (JObject [(''id'', JString (user_id m)), (''email'', JString (user_email m)),
                        (''name'', JString (user_name m)),
                        (''isVerified'', JBool (user_isVerified m))])) = None"
  shows "login storage_refuses JSON_stringify now email password s =
     (Inr (),
      s\<lparr>localStorage := (localStorage s)
           (''token'' \<mapsto> ''mock-jwt-token-'' @ String_of_number now,
            ''user'' \<mapsto> JSON_stringify
               (JObject [(''id'', JString (user_id m)), (''email'', JString (user_email m)),
                         (''name'', JString (user_name m)),
                         (''isVerified'', JBool (user_isVerified m))])),
        default_headers := (default_headers s)
           (''Authorization'' \<mapsto> ''Bearer '' @ ''mock-jwt-token-'' @ String_of_number now),
        user := JObject [(''id'', JString (user_id m)), (''email'', JString (user_email m)),
                         (''name'', JString (user_name m)),
                         (''isVerified'', JBool (user_isVerified m))],
        toasts := toasts s @ [toast_success ''Successfully logged in!''],
        console := console s @
          [console_log [Text ''Attempting login with:'',
             Value (JObject [(''email'', JString email), (''password'', JString password)])],
           console_log [Text ''Mock user found:'', Value (json_of_mock_user m)],
           console_log [Text ''Login successful'']]\<rparr>)"
  using assms by (simp add: login_def login_try_def effect_defs Let_def)

lemma find_email_None:
  "email \<notin> user_email ` set us \<Longrightarrow> find (\<lambda>u. user_email u = email) us = None"
  by (auto simp: find_None_iff)

lemma find_email_Some:
  "email \<in> user_email ` set us \<Longrightarrow> \<exists>m. find (\<lambda>u. user_email u = email) us = Some m"
  by (cases "find (\<lambda>u. user_email u = email) us") (auto simp: find_None_iff)

lemma register_existing:
  assumes "find (\<lambda>u. user_email u = email) (MOCK_USERS s) = Some m"
  shows "register name email password s =
     (Inl (Error ''User with this email already exists''),
      s\<lparr>toasts := toasts s @ [toast_error ''User with this email already exists'']\<rparr>)"
  using assms by (simp add: register_def register_try_def effect_defs or_else_def)

lemma register_novel:
  assumes "find (\<lambda>u. user_email u = email) (MOCK_USERS s) = None"
  shows "register name email password s =
     (Inr (),
      s\<lparr>MOCK_USERS := MOCK_USERS s @
           [\<lparr>user_id = String_of_number (int (length (MOCK_USERS s) + 1)), user_email = email,
             user_password = password, user_name = name, user_isVerified = True\<rparr>],
        toasts := toasts s @
          [toast_success ''Registration successful! You can now log in with your credentials.'']\<rparr>)"
  using assms by (simp add: register_def register_try_def effect_defs Let_def)

subsection \<open>The response interceptor\<close>

lemma mock_response_applications:
  "cfg_url c = Some ''/applications'' \<Longrightarrow> cfg_method c = Some m \<Longrightarrow> toLowerCase m = ''get'' \<Longrightarrow>
   mock_response c = Some (Applications MOCK_DATA_applications)"
  by (simp add: mock_response_def route_matches_def str_includes_def)

lemma mock_response_stats:
  "cfg_url c = Some ''/dashboard/stats'' \<Longrightarrow> cfg_method c = Some m \<Longrightarrow> toLowerCase m = ''get'' \<Longrightarrow>
   mock_response c = Some (DashboardStats dashboard_stats_fixture)"
  by (simp add: mock_response_def route_matches_def str_includes_def sublist_code(3))

lemma mock_response_Some_iff:
  "(\<exists>p. mock_response c = Some p) \<longleftrightarrow>
   (\<exists>m u. cfg_method c = Some m \<and> toLowerCase m = ''get'' \<and> cfg_url c = Some u \<and>
      (str_includes u ''/applications'' \<or> str_includes u ''/resumes'' \<or>
       str_includes u ''/reminders'' \<or> str_includes u ''/dashboard/stats'' \<or>
       str_includes u ''/analytics''))"
  by (cases "cfg_url c"; cases "cfg_method c")
     (auto simp: mock_response_def route_matches_def Let_def split: if_splits)

lemma reject_error_fst: "fst (reject_error e s) = Rejected e"
  by (simp add: reject_error_def Let_def)

lemma reject_error_401:
  "err_status e = Some 401 \<Longrightarrow>
   reject_error e s =
     (Rejected e,
      s\<lparr>localStorage := (localStorage s)(''token'' := None, ''user'' := None),
        location_href := ''/login''\<rparr>)"
  by (simp add: reject_error_def effect_defs Let_def)

subsection \<open>restore\<close>

lemma restore_skip:
  "\<not> (truthy_item (localStorage s ''token'') \<and> truthy_item (localStorage s ''user'')) \<Longrightarrow>
   restore JSON_parse s = s\<lparr>loading := False\<rparr>"
  by (auto simp add: restore_def effect_defs Let_def)

lemma restore_parse_error:
  assumes "localStorage s ''token'' = Some t" "t \<noteq> []"
    and "localStorage s ''user'' = Some u" "u \<noteq> []"
    and "JSON_parse u = Inl err"
  shows "restore JSON_parse s =
     s\<lparr>localStorage := (localStorage s)(''token'' := None, ''user'' := None),
       loading := False,
       console := console s @ [console_error [Text ''Error parsing user data:'', Thrown err]]\<rparr>"
  using assms by (simp add: restore_def restore_try_def effect_defs Let_def)

section \<open>Properties\<close>

text \<open>
  C1, as stated, says that on a 401 the response interceptor does all that \<open>logout\<close>
  does. It does not: for a session as \<open>login\<close> leaves it and a 401 answer, the
  interceptor leaves the gateway's default Authorization header in place and the
  current user set, while \<open>logout\<close> removes the one and clears the other.
\<close>

theorem unauthorized_not_as_logout_counterexample:
  "err_status (unauthorized_error (request ''get'' ''/applications'')) = Some 401 \<and>
   default_headers
     (snd (response_error_interceptor (unauthorized_error (request ''get'' ''/applications'')) signed_in))
     ''Authorization'' = Some ''Bearer mock-jwt-token-1700000000000'' \<and>
   default_headers (logout signed_in) ''Authorization'' = None \<and>
   authenticated
     (snd (response_error_interceptor (unauthorized_error (request ''get'' ''/applications'')) signed_in)) \<and>
   \<not> authenticated (logout signed_in)"
  by (simp add: response_error_interceptor_def reject_error_def unauthorized_error_def request_def
      signed_in_def test_userData_def logout_def effect_defs authenticated_def Let_def)

text \<open>
  C1, amended. For every error that carries a response with status 401 and is not
  answered with a fixture (its code is not a connection-level one, or its request
  matches no fixture), the interceptor rejects with that error, removes the persisted
  token and user from storage and sets the location to the login view. It leaves the
  gateway's default headers and the current user as they were.
\<close>

theorem unauthorized_clears_storage_and_redirects:
  assumes "err_status e = Some 401"
    and "(err_code e \<noteq> Some ''ERR_NETWORK'' \<and> err_code e \<noteq> Some ''ECONNREFUSED'') \<or>
         (\<exists>c. err_config e = Some c \<and> mock_response c = None)"
  shows "fst (response_error_interceptor e s) = Rejected e \<and>
         localStorage (snd (response_error_interceptor e s)) ''token'' = None \<and>
         localStorage (snd (response_error_interceptor e s)) ''user'' = None \<and>
         location_href (snd (response_error_interceptor e s)) = ''/login'' \<and>
         default_headers (snd (response_error_interceptor e s)) = default_headers s \<and>
         user (snd (response_error_interceptor e s)) = user s"
proof -
  have "response_error_interceptor e s = reject_error e s"
    using assms(2) by (auto simp: response_error_interceptor_def)
  then show ?thesis
    by (simp add: reject_error_401 [OF assms(1)])
qed

theorem unauthorized_clears_storage_and_redirects_witness:
  "err_status (unauthorized_error (request ''get'' ''/applications'')) = Some 401 \<and>
   err_code (unauthorized_error (request ''get'' ''/applications'')) \<noteq> Some ''ERR_NETWORK'' \<and>
   err_code (unauthorized_error (request ''get'' ''/applications'')) \<noteq> Some ''ECONNREFUSED'' \<and>
   localStorage signed_in ''token'' = Some ''mock-jwt-token-1700000000000'' \<and>
   localStorage
     (snd (response_error_interceptor (unauthorized_error (request ''get'' ''/applications'')) signed_in))
     ''token'' = None \<and>
   localStorage
     (snd (response_error_interceptor (unauthorized_error (request ''get'' ''/applications'')) signed_in))
     ''user'' = None \<and>
   location_href
     (snd (response_error_interceptor (unauthorized_error (request ''get'' ''/applications'')) signed_in))
     = ''/login''"
proof -
  have a: "err_status (unauthorized_error (request ''get'' ''/applications'')) = Some 401"
    and b: "err_code (unauthorized_error (request ''get'' ''/applications'')) \<noteq> Some ''ERR_NETWORK'' \<and>
            err_code (unauthorized_error (request ''get'' ''/applications'')) \<noteq> Some ''ECONNREFUSED''"
    and t: "localStorage signed_in ''token'' = Some ''mock-jwt-token-1700000000000''"
    by (simp_all add: unauthorized_error_def signed_in_def)
  from unauthorized_clears_storage_and_redirects [OF a disjI1 [OF b], of signed_in] a b t
  show ?thesis by simp
qed

text \<open>
  C2. When the failure is a connection-level one (code \<open>ERR_NETWORK\<close> or
  \<open>ECONNREFUSED\<close>), a GET request to \<open>/applications\<close> resolves with exactly the
  fixture array, which has 3 records, and a GET request to \<open>/dashboard/stats\<close>
  resolves with the counts 3, 1, 1, 1 and 0, each count being the length of the
  fixture array filtered by status. The state is left as it was.
\<close>

theorem network_failure_fixtures:
  assumes "err_code e = Some ''ERR_NETWORK'' \<or> err_code e = Some ''ECONNREFUSED''"
    and "err_config e = Some c"
    and "cfg_method c = Some m"
    and "toLowerCase m = ''get''"
  shows "(cfg_url c = Some ''/applications'' \<longrightarrow>
            response_error_interceptor e s = (Resolved (Applications MOCK_DATA_applications), s) \<and>
            length MOCK_DATA_applications = 3) \<and>
         (cfg_url c = Some ''/dashboard/stats'' \<longrightarrow>
            response_error_interceptor e s = (Resolved (DashboardStats dashboard_stats_fixture), s) \<and>
            totalApplications dashboard_stats_fixture = 3 \<and>
            appliedCount dashboard_stats_fixture = 1 \<and>
            interviewCount dashboard_stats_fixture = 1 \<and>
            offerCount dashboard_stats_fixture = 1 \<and>
            rejectedCount dashboard_stats_fixture = 0 \<and>
            appliedCount dashboard_stats_fixture =
              length (filter (\<lambda>a. app_status a = ''applied'') MOCK_DATA_applications) \<and>
            interviewCount dashboard_stats_fixture =
              length (filter (\<lambda>a. app_status a = ''interview'') MOCK_DATA_applications) \<and>
            offerCount dashboard_stats_fixture =
              length (filter (\<lambda>a. app_status a = ''offer'') MOCK_DATA_applications) \<and>
            rejectedCount dashboard_stats_fixture =
              length (filter (\<lambda>a. app_status a = ''rejected'') MOCK_DATA_applications))"
proof (intro conjI impI)
  assume url: "cfg_url c = Some ''/applications''"
  have "mock_response c = Some (Applications MOCK_DATA_applications)"
    using url assms(3,4) by (rule mock_response_applications)
  with assms(1,2)
  show "response_error_interceptor e s = (Resolved (Applications MOCK_DATA_applications), s)"
    by (auto simp: response_error_interceptor_def)
  show "length MOCK_DATA_applications = 3"
    by (simp add: MOCK_DATA_applications_def)
next
  assume url: "cfg_url c = Some ''/dashboard/stats''"
  have "mock_response c = Some (DashboardStats dashboard_stats_fixture)"
    using url assms(3,4) by (rule mock_response_stats)
  with assms(1,2)
  show "response_error_interceptor e s = (Resolved (DashboardStats dashboard_stats_fixture), s)"
    by (auto simp: response_error_interceptor_def)
qed (simp_all add: dashboard_stats_fixture_def MOCK_DATA_applications_def)

theorem network_failure_fixtures_witness:
  "response_error_interceptor (network_error (request ''GET'' ''/applications'')) signed_in =
     (Resolved (Applications MOCK_DATA_applications), signed_in) \<and>
   length MOCK_DATA_applications = 3 \<and>
   response_error_interceptor (network_error (request ''get'' ''/dashboard/stats'')) signed_in =
     (Resolved (DashboardStats dashboard_stats_fixture), signed_in) \<and>
   totalApplications dashboard_stats_fixture = 3 \<and>
   appliedCount dashboard_stats_fixture = 1 \<and>
   interviewCount dashboard_stats_fixture = 1 \<and>
   offerCount dashboard_stats_fixture = 1 \<and>
   rejectedCount dashboard_stats_fixture = 0"
proof -
  have get: "toLowerCase ''GET'' = ''get''" "toLowerCase ''get'' = ''get''"
    by (simp_all add: toLowerCase_def toLowerCase_char_def)
  have a: "err_code (network_error (request ''GET'' ''/applications'')) = Some ''ERR_NETWORK'' \<or>
           err_code (network_error (request ''GET'' ''/applications'')) = Some ''ECONNREFUSED''"
    and b: "err_config (network_error (request ''GET'' ''/applications'')) =
              Some (request ''GET'' ''/applications'')"
    and c: "cfg_method (request ''GET'' ''/applications'') = Some ''GET''"
    and d: "cfg_url (request ''GET'' ''/applications'') = Some ''/applications''"
    by (simp_all add: network_error_def request_def)
  have a': "err_code (network_error (request ''get'' ''/dashboard/stats'')) = Some ''ERR_NETWORK'' \<or>
            err_code (network_error (request ''get'' ''/dashboard/stats'')) = Some ''ECONNREFUSED''"
    and b': "err_config (network_error (request ''get'' ''/dashboard/stats'')) =
               Some (request ''get'' ''/dashboard/stats'')"
    and c': "cfg_method (request ''get'' ''/dashboard/stats'') = Some ''get''"
    and d': "cfg_url (request ''get'' ''/dashboard/stats'') = Some ''/dashboard/stats''"
    by (simp_all add: network_error_def request_def)
  from network_failure_fixtures [OF a b c get(1), of signed_in] d
       network_failure_fixtures [OF a' b' c' get(2), of signed_in] d'
  show ?thesis by simp
qed

text \<open>
  C3, as stated, says that a request to any route other than the five endpoints gets
  no fixture. The match is by substring: the resume download of the resumes view,
  \<open>GET /resumes/1/download\<close>, is none of the five endpoints and is answered with the
  resumes fixture.
\<close>

theorem download_route_gets_fixture_counterexample:
  "''/resumes/1/download'' \<notin>
     {''/applications'', ''/resumes'', ''/reminders'', ''/dashboard/stats'', ''/analytics''} \<and>
   response_error_interceptor (network_error (request ''get'' ''/resumes/1/download'')) signed_in =
     (Resolved (Resumes MOCK_DATA_resumes), signed_in)"
  by (simp add: response_error_interceptor_def mock_response_def route_matches_def
      network_error_def request_def str_includes_def sublist_code(3)
      toLowerCase_def toLowerCase_char_def)

text \<open>
  C3, amended. The interceptor resolves with a fixture exactly when the error is a
  connection-level one, the request's method lower-cases to \<open>get\<close> and its URL
  contains one of the five fragments \<open>/applications\<close>, \<open>/resumes\<close>, \<open>/reminders\<close>,
  \<open>/dashboard/stats\<close>, \<open>/analytics\<close> as a substring. For every other error that
  has a request configuration, the interceptor rejects with the error it was given.
\<close>

theorem fixture_iff_get_and_fragment:
  "((\<exists>p. fst (response_error_interceptor e s) = Resolved p) \<longleftrightarrow>
      (err_code e = Some ''ERR_NETWORK'' \<or> err_code e = Some ''ECONNREFUSED'') \<and>
      (\<exists>c m u. err_config e = Some c \<and> cfg_method c = Some m \<and> toLowerCase m = ''get'' \<and>
         cfg_url c = Some u \<and>
         (str_includes u ''/applications'' \<or> str_includes u ''/resumes'' \<or>
          str_includes u ''/reminders'' \<or> str_includes u ''/dashboard/stats'' \<or>
          str_includes u ''/analytics''))) \<and>
   (err_config e \<noteq> None \<and> \<not> (\<exists>p. fst (response_error_interceptor e s) = Resolved p) \<longrightarrow>
      fst (response_error_interceptor e s) = Rejected e)"
proof -
  have none: "mock_response c = None \<longleftrightarrow> \<not> (\<exists>p. mock_response c = Some p)" for c
    by auto
  show ?thesis
  proof (cases "err_code e = Some ''ERR_NETWORK'' \<or> err_code e = Some ''ECONNREFUSED''")
    case False
    then have "response_error_interceptor e s = reject_error e s"
      by (auto simp: response_error_interceptor_def)
    with False show ?thesis
      by (simp add: reject_error_fst)
  next
    case True
    show ?thesis
    proof (cases "err_config e")
      case None
      with True show ?thesis
        by (auto simp: response_error_interceptor_def)
    next
      case (Some c)
      show ?thesis
      proof (cases "mock_response c")
        case None
        with True Some have r: "response_error_interceptor e s = reject_error e s"
          by (auto simp: response_error_interceptor_def)
        from None have "\<not> (\<exists>p. mock_response c = Some p)"
          by simp
        then show ?thesis
          using True Some unfolding r mock_response_Some_iff
          by (simp add: reject_error_fst)
      next
        case (Some p)
        with True \<open>err_config e = Some c\<close>
        have r: "response_error_interceptor e s = (Resolved p, s)"
          by (auto simp: response_error_interceptor_def)
        from Some have "\<exists>p. mock_response c = Some p"
          by blast
        then show ?thesis
          using True \<open>err_config e = Some c\<close> unfolding r mock_response_Some_iff
          by simp
      qed
    qed
  qed
qed

theorem fixture_iff_get_and_fragment_witness:
  "fst (response_error_interceptor (network_error (request ''get'' ''/resumes/1/download'')) signed_in) =
     Resolved (Resumes MOCK_DATA_resumes) \<and>
   str_includes ''/resumes/1/download'' ''/resumes'' \<and>
   err_config (network_error (request ''post'' ''/applications'')) \<noteq> None \<and>
   \<not> (\<exists>m. cfg_method (request ''post'' ''/applications'') = Some m \<and> toLowerCase m = ''get'') \<and>
   fst (response_error_interceptor (network_error (request ''post'' ''/applications'')) signed_in) =
     Rejected (network_error (request ''post'' ''/applications''))"
proof -
  have inc: "str_includes ''/resumes/1/download'' ''/resumes''"
    by (simp add: str_includes_def sublist_code(3))
  have dl: "fst (response_error_interceptor (network_error (request ''get'' ''/resumes/1/download''))
              signed_in) = Resolved (Resumes MOCK_DATA_resumes)"
    by (simp add: response_error_interceptor_def mock_response_def route_matches_def
        network_error_def request_def str_includes_def sublist_code(3)
        toLowerCase_def toLowerCase_char_def)
  have cfg: "err_config (network_error (request ''post'' ''/applications'')) =
               Some (request ''post'' ''/applications'')"
    by (simp add: network_error_def)
  have post: "\<not> (\<exists>m. cfg_method (request ''post'' ''/applications'') = Some m \<and>
                  toLowerCase m = ''get'')"
    by (simp add: request_def toLowerCase_def toLowerCase_char_def)
  from fixture_iff_get_and_fragment
         [of "network_error (request ''post'' ''/applications'')" signed_in] cfg post
  have "fst (response_error_interceptor (network_error (request ''post'' ''/applications'')) signed_in) =
          Rejected (network_error (request ''post'' ''/applications''))"
    by auto
  with inc dl cfg post show ?thesis by simp
qed

text \<open>
  C4, as stated, says that \<open>login\<close> succeeds whenever a record matches. The two
  writes to storage are inside the \<open>try\<close> block: when the store is full the first
  one throws, the \<open>catch\<close> block rethrows, and the call ends with nothing persisted,
  no default Authorization header and no current user.
\<close>

theorem login_full_storage_counterexample:
  "(\<exists>u\<in>set (MOCK_USERS signed_out). user_email u = ''test@test.com'' \<and> user_password u = ''test123'') \<and>
   fst (login full_storage JSON_stringify_flat 1700000000000 ''test@test.com'' ''test123'' signed_out) =
     Inl (QuotaExceededError ''The quota has been exceeded.'') \<and>
   localStorage
     (snd (login full_storage JSON_stringify_flat 1700000000000 ''test@test.com'' ''test123'' signed_out))
     ''token'' = None \<and>
   default_headers
     (snd (login full_storage JSON_stringify_flat 1700000000000 ''test@test.com'' ''test123'' signed_out))
     ''Authorization'' = None \<and>
   user (snd (login full_storage JSON_stringify_flat 1700000000000 ''test@test.com'' ''test123'' signed_out)) =
     JNull \<and>
   \<not> authenticated
     (snd (login full_storage JSON_stringify_flat 1700000000000 ''test@test.com'' ''test123'' signed_out))"
  by (simp add: login_def login_try_def full_storage_def signed_out_def mount_def
      initial_MOCK_USERS_def effect_defs authenticated_def Let_def)

text \<open>
  C4, amended. When some record of the user table has exactly the given email and
  password, and the store accepts the write of the token and then the write of the
  serialised user, \<open>login\<close> returns normally. Storage then holds the token
  \<open>mock-jwt-token-\<close> followed by the clock value, which is not empty, and the
  serialised public fields (id, email, name, verification flag) of the first such
  record; the gateway's default Authorization header is \<open>Bearer\<close> followed by that
  token; and the current user is that record's public fields, with the given email.
\<close>

theorem login_success:
  assumes "\<exists>u\<in>set (MOCK_USERS s). user_email u = email \<and> user_password u = password"
    and "storage_refuses (localStorage s) ''token'' (''mock-jwt-token-'' @ String_of_number now) = None"
    and "\<forall>m. find (\<lambda>u. user_email u = email \<and> user_password u = password) (MOCK_USERS s) = Some m \<longrightarrow>
           storage_refuses ((localStorage s)(''token'' \<mapsto> ''mock-jwt-token-'' @ String_of_number now))
             ''user''
             (JSON_stringify
                (JObject [(''id'', JString (user_id m)), (''email'', JString (user_email m)),
                          (''name'', JString (user_name m)),
                          (''isVerified'', JBool (user_isVerified m))])) = None"
  shows "\<exists>m token userData s'.
           login storage_refuses JSON_stringify now email password s = (Inr (), s') \<and>
           m \<in> set (MOCK_USERS s) \<and> user_email m = email \<and> user_password m = password \<and>
           token = ''mock-jwt-token-'' @ String_of_number now \<and> token \<noteq> [] \<and>
           userData = JObject [(''id'', JString (user_id m)), (''email'', JString (user_email m)),
                               (''name'', JString (user_name m)),
                               (''isVerified'', JBool (user_isVerified m))] \<and>
           localStorage s' ''token'' = Some token \<and>
           localStorage s' ''user'' = Some (JSON_stringify userData) \<and>
           default_headers s' ''Authorization'' = Some (''Bearer '' @ token) \<and>
           user s' = userData \<and>
           json_field (user s') ''email'' = Some (JString email) \<and>
           authenticated s'"
proof -
  from find_login_Some [OF assms(1)] obtain m where
    m: "find (\<lambda>u. user_email u = email \<and> user_password u = password) (MOCK_USERS s) = Some m"
       "m \<in> set (MOCK_USERS s)" "user_email m = email" "user_password m = password"
    by blast
  from assms(3) m(1) have
    w: "storage_refuses ((localStorage s)(''token'' \<mapsto> ''mock-jwt-token-'' @ String_of_number now))
          ''user''
          (JSON_stringify
             (JObject [(''id'', JString (user_id m)), (''email'', JString (user_email m)),
                       (''name'', JString (user_name m)),
                       (''isVerified'', JBool (user_isVerified m))])) = None"
    by blast
  have "login storage_refuses JSON_stringify now email password s =
     (Inr (),
      s\<lparr>localStorage := (localStorage s)
           (''token'' \<mapsto> ''mock-jwt-token-'' @ String_of_number now,
            ''user'' \<mapsto> JSON_stringify
               (JObject [(''id'', JString (user_id m)), (''email'', JString (user_email m)),
                         (''name'', JString (user_name m)),
                         (''isVerified'', JBool (user_isVerified m))])),
        default_headers := (default_headers s)
           (''Authorization'' \<mapsto> ''Bearer '' @ ''mock-jwt-token-'' @ String_of_number now),
        user := JObject [(''id'', JString (user_id m)), (''email'', JString (user_email m)),
                         (''name'', JString (user_name m)),
                         (''isVerified'', JBool (user_isVerified m))],
        toasts := toasts s @ [toast_success ''Successfully logged in!''],
        console := console s @
          [console_log [Text ''Attempting login with:'',
             Value (JObject [(''email'', JString email), (''password'', JString password)])],
           console_log [Text ''Mock user found:'', Value (json_of_mock_user m)],
           console_log [Text ''Login successful'']]\<rparr>)"
    using m(1) assms(2) w by (rule login_match)
  then show ?thesis
    using m(2-4) by (simp add: authenticated_def) blast
qed

theorem login_success_witness:
  "(\<exists>u\<in>set (MOCK_USERS signed_out). user_email u = ''test@test.com'' \<and> user_password u = ''test123'') \<and>
   roomy_storage (localStorage signed_out) ''token'' ''mock-jwt-token-1700000000000'' = None \<and>
   roomy_storage ((localStorage signed_out)(''token'' \<mapsto> ''mock-jwt-token-1700000000000''))
     ''user'' (JSON_stringify_flat test_userData) = None \<and>
   fst (login roomy_storage JSON_stringify_flat 1700000000000 ''test@test.com'' ''test123'' signed_out) =
     Inr () \<and>
   localStorage
     (snd (login roomy_storage JSON_stringify_flat 1700000000000 ''test@test.com'' ''test123'' signed_out))
     ''token'' = Some ''mock-jwt-token-1700000000000'' \<and>
   default_headers
     (snd (login roomy_storage JSON_stringify_flat 1700000000000 ''test@test.com'' ''test123'' signed_out))
     ''Authorization'' = Some ''Bearer mock-jwt-token-1700000000000'' \<and>
   localStorage
     (snd (login roomy_storage JSON_stringify_flat 1700000000000 ''test@test.com'' ''test123'' signed_out))
     ''user'' = Some (JSON_stringify_flat test_userData) \<and>
   json_field
     (user (snd (login roomy_storage JSON_stringify_flat 1700000000000 ''test@test.com'' ''test123'' signed_out)))
     ''email'' = Some (JString ''test@test.com'')"
proof -
  have h: "\<exists>u\<in>set (MOCK_USERS signed_out).
             user_email u = ''test@test.com'' \<and> user_password u = ''test123''"
    by (simp add: signed_out_def mount_def initial_MOCK_USERS_def)
  have t: "String_of_number 1700000000000 = ''1700000000000''"
    by (simp add: String_of_number_def digits_of_last digits_of_more digit_char_def)
  have r: "roomy_storage c k v = None" for c k v
    by (simp add: roomy_storage_def)
  from login_success
         [where storage_refuses = roomy_storage and JSON_stringify = JSON_stringify_flat
            and now = 1700000000000, OF h] h t r
  show ?thesis by (auto simp: test_userData_def signed_out_def mount_def initial_MOCK_USERS_def)
qed

text \<open>
  C5. When no record of the user table has exactly the given email and password,
  \<open>login\<close> throws the error \<open>Invalid email or password\<close>, and storage, the gateway's
  default headers, the current user and the user table are what they were before the
  call. (The call adds an error notification and three console lines.)
\<close>

theorem login_failure_session_unchanged:
  assumes "\<not> (\<exists>u\<in>set (MOCK_USERS s). user_email u = email \<and> user_password u = password)"
  shows "\<exists>s'. login storage_refuses JSON_stringify now email password s =
                 (Inl (Error ''Invalid email or password''), s') \<and>
              localStorage s' = localStorage s \<and>
              default_headers s' = default_headers s \<and>
              user s' = user s \<and>
              MOCK_USERS s' = MOCK_USERS s \<and>
              loading s' = loading s \<and>
              location_href s' = location_href s \<and>
              toasts s' = toasts s @ [toast_error ''Invalid email or password'']"
  by (simp add: login_no_match [OF find_login_None [OF assms]])

theorem login_failure_session_unchanged_witness:
  "\<not> (\<exists>u\<in>set (MOCK_USERS signed_in). user_email u = ''test@test.com'' \<and> user_password u = ''nope'') \<and>
   fst (login roomy_storage JSON_stringify_flat 1700000000000 ''test@test.com'' ''nope'' signed_in) =
     Inl (Error ''Invalid email or password'') \<and>
   localStorage (snd (login roomy_storage JSON_stringify_flat 1700000000000 ''test@test.com'' ''nope'' signed_in)) =
     localStorage signed_in \<and>
   default_headers (snd (login roomy_storage JSON_stringify_flat 1700000000000 ''test@test.com'' ''nope'' signed_in)) =
     default_headers signed_in \<and>
   user (snd (login roomy_storage JSON_stringify_flat 1700000000000 ''test@test.com'' ''nope'' signed_in)) =
     user signed_in"
proof -
  have h: "\<not> (\<exists>u\<in>set (MOCK_USERS signed_in).
             user_email u = ''test@test.com'' \<and> user_password u = ''nope'')"
    by (simp add: signed_in_def initial_MOCK_USERS_def)
  from login_failure_session_unchanged [OF h, of roomy_storage JSON_stringify_flat 1700000000000] h
  show ?thesis by auto
qed

text \<open>
  C6. \<open>register\<close> with an email that some record of the table already has throws
  and leaves the table as it was; with an email that no record has it returns
  normally and the table is the old one followed by one new record, verified, so its
  length grows by exactly one. In both cases storage, the gateway's default headers
  and the current user are what they were: no session is established.
\<close>

theorem register_table_and_session:
  "(email \<in> user_email ` set (MOCK_USERS s) \<longrightarrow>
      fst (register name email password s) = Inl (Error ''User with this email already exists'') \<and>
      MOCK_USERS (snd (register name email password s)) = MOCK_USERS s \<and>
      length (MOCK_USERS (snd (register name email password s))) = length (MOCK_USERS s)) \<and>
   (email \<notin> user_email ` set (MOCK_USERS s) \<longrightarrow>
      fst (register name email password s) = Inr () \<and>
      MOCK_USERS (snd (register name email password s)) =
        MOCK_USERS s @
          [\<lparr>user_id = String_of_number (int (length (MOCK_USERS s) + 1)), user_email = email,
            user_password = password, user_name = name, user_isVerified = True\<rparr>] \<and>
      length (MOCK_USERS (snd (register name email password s))) = length (MOCK_USERS s) + 1) \<and>
   localStorage (snd (register name email password s)) = localStorage s \<and>
   default_headers (snd (register name email password s)) = default_headers s \<and>
   user (snd (register name email password s)) = user s"
proof (cases "email \<in> user_email ` set (MOCK_USERS s)")
  case True
  from find_email_Some [OF True] obtain m where
    "find (\<lambda>u. user_email u = email) (MOCK_USERS s) = Some m" ..
  then show ?thesis
    using True by (simp add: register_existing)
next
  case False
  from find_email_None [OF False] show ?thesis
    using False by (simp add: register_novel)
qed

theorem register_table_and_session_witness:
  "''test@test.com'' \<in> user_email ` set (MOCK_USERS signed_out) \<and>
   fst (register ''Again'' ''test@test.com'' ''secret'' signed_out) =
     Inl (Error ''User with this email already exists'') \<and>
   length (MOCK_USERS (snd (register ''Again'' ''test@test.com'' ''secret'' signed_out))) = 3 \<and>
   ''new@example.com'' \<notin> user_email ` set (MOCK_USERS signed_out) \<and>
   fst (register ''New User'' ''new@example.com'' ''secret'' signed_out) = Inr () \<and>
   length (MOCK_USERS (snd (register ''New User'' ''new@example.com'' ''secret'' signed_out))) = 4 \<and>
   user (snd (register ''New User'' ''new@example.com'' ''secret'' signed_out)) = JNull"
proof -
  have old: "''test@test.com'' \<in> user_email ` set (MOCK_USERS signed_out)"
    and new: "''new@example.com'' \<notin> user_email ` set (MOCK_USERS signed_out)"
    and len: "length (MOCK_USERS signed_out) = 3"
    and usr: "user signed_out = JNull"
    by (simp_all add: signed_out_def mount_def initial_MOCK_USERS_def)
  from register_table_and_session [of "''test@test.com''" signed_out "''Again''" "''secret''"]
       register_table_and_session [of "''new@example.com''" signed_out "''New User''" "''secret''"]
       old new len usr
  show ?thesis by simp
qed

text \<open>
  C7. Whatever the state before, after \<open>logout\<close> the persisted token and user are
  absent from storage, the gateway has no default Authorization header, and the
  current session is unauthenticated.
\<close>

theorem logout_clears_session:
  "localStorage (logout s) ''token'' = None \<and>
   localStorage (logout s) ''user'' = None \<and>
   default_headers (logout s) ''Authorization'' = None \<and>
   user (logout s) = JNull \<and>
   \<not> authenticated (logout s)"
  by (simp add: logout_def effect_defs authenticated_def)

text \<open>
  C8, as stated, covers every start-up state whose storage holds a token and a
  malformed user value. The guard of the restore effect tests truthiness, so an empty
  string counts as absent: with a token and the empty text as user value (which is not
  JSON), nothing is parsed and nothing is removed, and the token stays in storage.
\<close>

theorem restore_keeps_empty_user_counterexample:
  "localStorage (mount [''token'' \<mapsto> ''mock-jwt-token-1700000000000'', ''user'' \<mapsto> ''''] Map.empty ''/'')
     ''token'' = Some ''mock-jwt-token-1700000000000'' \<and>
   localStorage (mount [''token'' \<mapsto> ''mock-jwt-token-1700000000000'', ''user'' \<mapsto> ''''] Map.empty ''/'')
     ''user'' = Some '''' \<and>
   isl (JSON_parse_literals '''') \<and>
   localStorage
     (restore JSON_parse_literals
        (mount [''token'' \<mapsto> ''mock-jwt-token-1700000000000'', ''user'' \<mapsto> ''''] Map.empty ''/''))
     ''token'' = Some ''mock-jwt-token-1700000000000'' \<and>
   localStorage
     (restore JSON_parse_literals
        (mount [''token'' \<mapsto> ''mock-jwt-token-1700000000000'', ''user'' \<mapsto> ''''] Map.empty ''/''))
     ''user'' = Some ''''"
  by (simp add: restore_def mount_def effect_defs JSON_parse_literals_def Let_def)

text \<open>
  C8, amended. For every start-up state (no current user yet) whose storage holds a
  non-empty token and a non-empty user value that \<open>JSON.parse\<close> rejects, the
  \<open>try\<close> block throws and the \<open>catch\<close> block handles it: \<open>restore\<close> returns a state
  in which both persisted values are removed and the session is unauthenticated.
\<close>

theorem restore_malformed_user_clears:
  assumes "localStorage s ''token'' = Some t" and "t \<noteq> []"
    and "localStorage s ''user'' = Some u" and "u \<noteq> []"
    and "JSON_parse u = Inl err"
    and "user s = JNull"
  shows "restore_try JSON_parse t u s = Inl err \<and>
         localStorage (restore JSON_parse s) ''token'' = None \<and>
         localStorage (restore JSON_parse s) ''user'' = None \<and>
         user (restore JSON_parse s) = JNull \<and>
         \<not> authenticated (restore JSON_parse s) \<and>
         default_headers (restore JSON_parse s) = default_headers s \<and>
         loading (restore JSON_parse s) = False"
  using assms(5,6)
  by (simp add: restore_parse_error [where JSON_parse = JSON_parse, OF assms(1-5)] restore_try_def authenticated_def)

theorem restore_malformed_user_clears_witness:
  "localStorage (mount [''token'' \<mapsto> ''mock-jwt-token-1700000000000'', ''user'' \<mapsto> ''{''] Map.empty ''/'')
     ''token'' = Some ''mock-jwt-token-1700000000000'' \<and>
   localStorage (mount [''token'' \<mapsto> ''mock-jwt-token-1700000000000'', ''user'' \<mapsto> ''{''] Map.empty ''/'')
     ''user'' = Some ''{'' \<and>
   isl (JSON_parse_literals ''{'') \<and>
   localStorage
     (restore JSON_parse_literals
        (mount [''token'' \<mapsto> ''mock-jwt-token-1700000000000'', ''user'' \<mapsto> ''{''] Map.empty ''/''))
     ''token'' = None \<and>
   localStorage
     (restore JSON_parse_literals
        (mount [''token'' \<mapsto> ''mock-jwt-token-1700000000000'', ''user'' \<mapsto> ''{''] Map.empty ''/''))
     ''user'' = None \<and>
   \<not> authenticated
     (restore JSON_parse_literals
        (mount [''token'' \<mapsto> ''mock-jwt-token-1700000000000'', ''user'' \<mapsto> ''{''] Map.empty ''/''))"
proof -
  let ?s = "mount [''token'' \<mapsto> ''mock-jwt-token-1700000000000'', ''user'' \<mapsto> ''{''] Map.empty ''/''"
  have t: "localStorage ?s ''token'' = Some ''mock-jwt-token-1700000000000''"
    and t': "''mock-jwt-token-1700000000000'' \<noteq> []"
    and u: "localStorage ?s ''user'' = Some ''{''"
    and u': "''{'' \<noteq> []"
    and p: "JSON_parse_literals ''{'' = Inl (SyntaxError ''Unexpected token or end of JSON input'')"
    and n: "user ?s = JNull"
    by (simp_all add: mount_def JSON_parse_literals_def)
  from restore_malformed_user_clears [where JSON_parse = JSON_parse_literals, OF t t' u u' p n] t u p
  show ?thesis by simp
qed

text \<open>
  C9, as stated, says that a leftover token is attached to every later request. The
  request interceptor tests truthiness as well: when the only stored value is an empty
  token, \<open>restore\<close> leaves it in storage and the interceptor attaches nothing.
\<close>

theorem empty_token_not_attached_counterexample:
  "localStorage (mount [''token'' \<mapsto> ''''] Map.empty ''/'') ''token'' = Some '''' \<and>
   localStorage (mount [''token'' \<mapsto> ''''] Map.empty ''/'') ''user'' = None \<and>
   localStorage (restore JSON_parse_literals (mount [''token'' \<mapsto> ''''] Map.empty ''/'')) ''token'' =
     Some '''' \<and>
   cfg_headers
     (request_interceptor (restore JSON_parse_literals (mount [''token'' \<mapsto> ''''] Map.empty ''/''))
        (request ''get'' ''/applications''))
     ''Authorization'' = None"
  by (simp add: restore_def request_interceptor_def mount_def request_def effect_defs Let_def)

text \<open>
  C9, amended. For every start-up state (no current user yet) whose storage holds
  exactly one of the two values, \<open>restore\<close> leaves storage as it was and the session
  unauthenticated; and when the value held is a token that is not empty, the request
  interceptor, run in the restored state, sets the Authorization header of every request
  to \<open>Bearer\<close> followed by that token.
\<close>

theorem restore_partial_storage:
  assumes "(localStorage s ''token'' = None) \<noteq> (localStorage s ''user'' = None)"
    and "user s = JNull"
  shows "localStorage (restore JSON_parse s) = localStorage s \<and>
         user (restore JSON_parse s) = JNull \<and>
         \<not> authenticated (restore JSON_parse s) \<and>
         default_headers (restore JSON_parse s) = default_headers s \<and>
         (\<forall>t config. localStorage s ''token'' = Some t \<and> t \<noteq> [] \<longrightarrow>
            cfg_headers (request_interceptor (restore JSON_parse s) config) ''Authorization'' =
              Some (''Bearer '' @ t))"
proof -
  have "\<not> (truthy_item (localStorage s ''token'') \<and> truthy_item (localStorage s ''user''))"
    using assms(1) by (cases "localStorage s ''token''"; cases "localStorage s ''user''") auto
  then have r: "restore JSON_parse s = s\<lparr>loading := False\<rparr>"
    by (rule restore_skip)
  show ?thesis
    using assms(2) unfolding r
    by (auto simp: authenticated_def request_interceptor_def effect_defs Let_def)
qed

theorem restore_partial_storage_witness:
  "(localStorage (mount [''token'' \<mapsto> ''mock-jwt-token-1700000000000''] Map.empty ''/'') ''token'' = None) \<noteq>
   (localStorage (mount [''token'' \<mapsto> ''mock-jwt-token-1700000000000''] Map.empty ''/'') ''user'' = None) \<and>
   localStorage
     (restore JSON_parse_literals (mount [''token'' \<mapsto> ''mock-jwt-token-1700000000000''] Map.empty ''/''))
     ''token'' = Some ''mock-jwt-token-1700000000000'' \<and>
   \<not> authenticated
     (restore JSON_parse_literals (mount [''token'' \<mapsto> ''mock-jwt-token-1700000000000''] Map.empty ''/'')) \<and>
   cfg_headers
     (request_interceptor
        (restore JSON_parse_literals (mount [''token'' \<mapsto> ''mock-jwt-token-1700000000000''] Map.empty ''/''))
        (request ''get'' ''/applications''))
     ''Authorization'' = Some ''Bearer mock-jwt-token-1700000000000''"
proof -
  let ?s = "mount [''token'' \<mapsto> ''mock-jwt-token-1700000000000''] Map.empty ''/''"
  have one: "(localStorage ?s ''token'' = None) \<noteq> (localStorage ?s ''user'' = None)"
    and n: "user ?s = JNull"
    and t: "localStorage ?s ''token'' = Some ''mock-jwt-token-1700000000000''"
    by (simp_all add: mount_def)
  from restore_partial_storage [OF one n, of JSON_parse_literals] one t
  show ?thesis by simp
qed

text \<open>
  C10. Take two failing calls of \<open>login\<close> in the same state, one with an email that
  is in the table and a password that matches none of its records, the other with an
  email that is not in the table. Both throw the same error, with the message
  \<open>Invalid email or password\<close>, and the two resulting states are the same in
  storage, default headers, current user, user table, location, loading flag and
  notifications. They differ only in the first of the three console lines each call
  writes, which repeats the email and password that the call itself was given.
\<close>

theorem login_failure_indistinguishable:
  assumes "email1 \<in> user_email ` set (MOCK_USERS s)"
    and "\<not> (\<exists>u\<in>set (MOCK_USERS s). user_email u = email1 \<and> user_password u = password1)"
    and "email2 \<notin> user_email ` set (MOCK_USERS s)"
  shows "fst (login storage_refuses1 JSON_stringify now1 email1 password1 s) = Inl (Error ''Invalid email or password'') \<and>
         fst (login storage_refuses2 JSON_stringify now2 email2 password2 s) = Inl (Error ''Invalid email or password'') \<and>
         message (Error ''Invalid email or password'') = ''Invalid email or password'' \<and>
         (snd (login storage_refuses1 JSON_stringify now1 email1 password1 s))\<lparr>console := []\<rparr> =
         (snd (login storage_refuses2 JSON_stringify now2 email2 password2 s))\<lparr>console := []\<rparr> \<and>
         (snd (login storage_refuses1 JSON_stringify now1 email1 password1 s))\<lparr>console := []\<rparr> =
           s\<lparr>toasts := toasts s @ [toast_error ''Invalid email or password''], console := []\<rparr> \<and>
         console (snd (login storage_refuses1 JSON_stringify now1 email1 password1 s)) =
           console s @
             [console_log [Text ''Attempting login with:'',
                Value (JObject [(''email'', JString email1), (''password'', JString password1)])],
              console_log [Text ''User not found in mock data''],
              console_error [Text ''Login error:'', Thrown (Error ''Invalid email or password'')]] \<and>
         console (snd (login storage_refuses2 JSON_stringify now2 email2 password2 s)) =
           console s @
             [console_log [Text ''Attempting login with:'',
                Value (JObject [(''email'', JString email2), (''password'', JString password2)])],
              console_log [Text ''User not found in mock data''],
              console_error [Text ''Login error:'', Thrown (Error ''Invalid email or password'')]]"
proof -
  have "\<not> (\<exists>u\<in>set (MOCK_USERS s). user_email u = email2 \<and> user_password u = password2)"
    using assms(3) by auto
  then have 2: "find (\<lambda>u. user_email u = email2 \<and> user_password u = password2) (MOCK_USERS s) = None"
    by (rule find_login_None)
  have 1: "find (\<lambda>u. user_email u = email1 \<and> user_password u = password1) (MOCK_USERS s) = None"
    using assms(2) by (rule find_login_None)
  show ?thesis
    by (simp add: login_no_match [OF 1] login_no_match [OF 2])
qed

theorem login_failure_indistinguishable_witness:
  "''test@test.com'' \<in> user_email ` set (MOCK_USERS signed_out) \<and>
   \<not> (\<exists>u\<in>set (MOCK_USERS signed_out). user_email u = ''test@test.com'' \<and> user_password u = ''nope'') \<and>
   ''nobody@example.com'' \<notin> user_email ` set (MOCK_USERS signed_out) \<and>
   fst (login roomy_storage JSON_stringify_flat 1700000000000 ''test@test.com'' ''nope'' signed_out) =
   fst (login full_storage JSON_stringify_flat 1700000000001 ''nobody@example.com'' ''nope'' signed_out) \<and>
   (snd (login roomy_storage JSON_stringify_flat 1700000000000 ''test@test.com'' ''nope'' signed_out))\<lparr>console := []\<rparr> =
   (snd (login full_storage JSON_stringify_flat 1700000000001 ''nobody@example.com'' ''nope'' signed_out))\<lparr>console := []\<rparr>"
proof -
  have a: "''test@test.com'' \<in> user_email ` set (MOCK_USERS signed_out)"
    and b: "\<not> (\<exists>u\<in>set (MOCK_USERS signed_out).
                user_email u = ''test@test.com'' \<and> user_password u = ''nope'')"
    and c: "''nobody@example.com'' \<notin> user_email ` set (MOCK_USERS signed_out)"
    by (simp_all add: signed_out_def mount_def initial_MOCK_USERS_def)
  from login_failure_indistinguishable
         [OF a b c, of roomy_storage JSON_stringify_flat 1700000000000 full_storage
            1700000000001 "''nope''"] a b c
  show ?thesis by simp
qed

end
